theory Spec2Isabelle
  imports Main "HOL-Library.Sublist"
begin

section \<open>sqlite\_fdw: type translation and foreign table synthesis (funcs.c)\<close>

text \<open>
  A shallow embedding of \<^verbatim>\<open>src/funcs.c\<close>. C strings are modelled as \<open>string\<close>
  (the bytes before the terminating NUL), a \<^verbatim>\<open>NULL\<close> pointer as \<open>None\<close>,
  \<^verbatim>\<open>ereport(ERROR, ...)\<close> as the \<open>Inl\<close> branch of a sum, and the
  \<^verbatim>\<open>StringInfoData\<close> buffer as a string that is passed in and returned extended.
\<close>

subsection \<open>C library string functions\<close>

text \<open>
  \<^verbatim>\<open>strcmp\<close> and \<^verbatim>\<open>strncmp\<close> return an integer of which C fixes only the sign;
  the model returns \<open>-1\<close>, \<open>0\<close> or \<open>1\<close>. Bytes compare as unsigned values.
\<close>

fun strcmp :: "string \<Rightarrow> string \<Rightarrow> int" where
  "strcmp [] [] = 0"
| "strcmp [] (b # bs) = -1"
| "strcmp (a # as) [] = 1"
| "strcmp (a # as) (b # bs) =
     (if a = b then strcmp as bs
      else if (of_char a :: nat) < of_char b then -1 else 1)"

fun strncmp :: "string \<Rightarrow> string \<Rightarrow> nat \<Rightarrow> int" where
  "strncmp s t 0 = 0"
| "strncmp [] [] (Suc n) = 0"
| "strncmp [] (b # bs) (Suc n) = -1"
| "strncmp (a # as) [] (Suc n) = 1"
| "strncmp (a # as) (b # bs) (Suc n) =
     (if a = b then strncmp as bs n
      else if (of_char a :: nat) < of_char b then -1 else 1)"

text \<open>
  \<^verbatim>\<open>strstr(haystack, needle)\<close> returns a pointer to the first occurrence of the
  needle, or \<^verbatim>\<open>NULL\<close>: here the rest of the haystack from that occurrence on,
  or \<open>None\<close>.
\<close>

fun strstr :: "string \<Rightarrow> string \<Rightarrow> string option" where
  "strstr [] needle = (if needle = [] then Some [] else None)"
| "strstr (c # cs) needle =
     (if prefix needle (c # cs) then Some (c # cs) else strstr cs needle)"

subsection \<open>PostgreSQL helpers\<close>

text \<open>
  Modelled from the spec: \<^verbatim>\<open>asc_tolower\<close> is a function of the PostgreSQL server
  (\<^verbatim>\<open>utils/formatting.h\<close>), not of this repository. The spec says the declaration
  is lowercased before matching; PostgreSQL's function copies the string and maps the
  bytes \<^verbatim>\<open>'A'..'Z'\<close> to \<^verbatim>\<open>'a'..'z'\<close>, leaving every other byte as it is.
\<close>

definition pg_ascii_tolower :: "char \<Rightarrow> char" where
  "pg_ascii_tolower ch =
     (if (65::nat) \<le> of_char ch \<and> (of_char ch :: nat) \<le> 90
      then char_of ((of_char ch :: nat) + 32) else ch)"

definition asc_tolower :: "string \<Rightarrow> string" where
  "asc_tolower buff = map pg_ascii_tolower buff"

datatype errcode =
    ERRCODE_FDW_ERROR
  | ERRCODE_FDW_UNABLE_TO_CREATE_EXECUTION

text \<open>An \<^verbatim>\<open>ereport(ERROR, (errcode(c), errmsg(m)))\<close>: the code and the formatted message.\<close>

datatype ereport = ERROR errcode string

subsection \<open>The type classifier\<close>

definition get_affinity :: "string \<Rightarrow> string" where
  "get_affinity type =
     (if strstr type ''int'' \<noteq> None then ''Integer''
      else if strstr type ''char'' \<noteq> None \<or>
              strstr type ''clob'' \<noteq> None \<or>
              strstr type ''text'' \<noteq> None then ''Text''
      else if strstr type ''blob'' \<noteq> None then ''Blob''
      else if strstr type ''real'' \<noteq> None \<or>
              strstr type ''floa'' \<noteq> None \<or>
              strstr type ''doub'' \<noteq> None then ''Real''
      else ''Numeric'')"

definition translate_sqliteType :: "string \<Rightarrow> ereport + string" where
  "translate_sqliteType type0 =
     (let type = asc_tolower type0;
          affinity = get_affinity type
      in if strcmp affinity ''Text'' = 0 then Inr ''text''
         else if strcmp affinity ''Integer'' = 0 then Inr ''bigint''
         else if strcmp affinity ''Real'' = 0 then Inr ''double precision''
         else if strcmp affinity ''Blob'' = 0 then Inr ''bytea''
         else if strcmp type ''timestamp'' = 0 \<or> strcmp type ''date'' \<noteq> 0
              then Inr type
         else if strncmp type ''bool'' 4 = 0 then Inr ''boolean''
         else Inl (ERROR ERRCODE_FDW_ERROR
                     (''Could not handle type '' @ type @ '' from a sqlite db'')))"

subsection \<open>The scope filter\<close>

datatype ImportForeignSchemaType =
    FDW_IMPORT_SCHEMA_ALL
  | FDW_IMPORT_SCHEMA_LIMIT_TO
  | FDW_IMPORT_SCHEMA_EXCEPT

text \<open>
  PostgreSQL's \<^verbatim>\<open>ImportForeignSchemaStmt\<close>. Of each \<^verbatim>\<open>RangeVar\<close> in
  \<^verbatim>\<open>table_list\<close> the code reads only \<^verbatim>\<open>relname\<close>, so the list holds the names.
\<close>

record ImportForeignSchemaStmt =
  server_name :: string
  remote_schema :: string
  local_schema :: string
  list_type :: ImportForeignSchemaType
  table_list :: "string list"

text \<open>
  The \<^verbatim>\<open>foreach\<close> loop of both cases: \<open>True\<close> when some cell's \<^verbatim>\<open>relname\<close>
  compares equal to the table name, so that the loop body returns; \<open>False\<close> when
  the loop runs to the end of the list.
\<close>

fun foreach_table_list :: "string \<Rightarrow> string list \<Rightarrow> bool" where
  "foreach_table_list tablename [] = False"
| "foreach_table_list tablename (relname # lc) =
     (if strcmp tablename relname = 0 then True
      else foreach_table_list tablename lc)"

definition is_sqliteTableRequired :: "ImportForeignSchemaStmt \<Rightarrow> string \<Rightarrow> bool" where
  "is_sqliteTableRequired stmt tablename =
     (case list_type stmt of
        FDW_IMPORT_SCHEMA_LIMIT_TO \<Rightarrow>
          (if foreach_table_list tablename (table_list stmt) then True else False)
      | FDW_IMPORT_SCHEMA_EXCEPT \<Rightarrow>
          (if foreach_table_list tablename (table_list stmt) then False else True)
      | FDW_IMPORT_SCHEMA_ALL \<Rightarrow> True)"

subsection \<open>The table definition synthesizer\<close>

record SqliteTableImportOptions =
  import_notnull :: bool
  import_default :: bool

text \<open>
  One row of \<^verbatim>\<open>PRAGMA table_info\<close>, as the code reads it: column 1 is the column's
  name, column 2 its declared type (\<open>None\<close> when \<^verbatim>\<open>sqlite3_column_type\<close> says
  \<^verbatim>\<open>SQLITE_NULL\<close>), column 3 the not-null flag as an integer, column 4 the default
  value's text (\<open>None\<close> when \<^verbatim>\<open>SQLITE_NULL\<close>).
\<close>

record table_info_row =
  ti_name :: string
  ti_type :: "string option"
  ti_notnull :: int
  ti_dflt_value :: "string option"

text \<open>
  The database handle, seen through the one thing the code does with it: preparing a
  query either fails, with the error SQLite has for it, or gives a statement, and
  stepping that statement yields its rows in order until it stops returning
  \<^verbatim>\<open>SQLITE_ROW\<close>.
\<close>

type_synonym sqlite3 = "string \<Rightarrow> string + table_info_row list"

text \<open>
  On a failed prepare the code calls \<^verbatim>\<open>sqlite3_close(db)\<close> first and
  \<^verbatim>\<open>sqlite3_errmsg(db)\<close> afterwards. The handle is no longer open then, so the
  message formatted into the report is SQLite's text for a misused handle and not the
  prepare's own error, which is dropped.
\<close>

definition prepare_sqliteQuery :: "sqlite3 \<Rightarrow> string \<Rightarrow> ereport + table_info_row list" where
  "prepare_sqliteQuery db query =
     (case db query of
        Inl prepare_error \<Rightarrow>
          Inl (ERROR ERRCODE_FDW_UNABLE_TO_CREATE_EXECUTION
                 (''SQL error during prepare: '' @ ''bad parameter or other API misuse''))
      | Inr stmt \<Rightarrow> Inr stmt)"

text \<open>
  \<^verbatim>\<open>quote_identifier\<close> belongs to PostgreSQL; the functions below take it as their
  first argument. The buffer \<open>cftsql\<close> goes in and comes out extended; an error raised
  by the classifier leaves through \<open>Inl\<close> and the buffer is lost.
\<close>

definition add_columnDefinition ::
  "(string \<Rightarrow> string) \<Rightarrow> string \<Rightarrow> nat \<Rightarrow> SqliteTableImportOptions \<Rightarrow> table_info_row
     \<Rightarrow> ereport + string" where
  "add_columnDefinition quote_identifier cftsql counter importOpts columns =
     (let colname = ti_name columns;
          typename = (case ti_type columns of None \<Rightarrow> ''blob'' | Some t \<Rightarrow> t);
          cftsql = (if counter > 0 then cftsql @ '','' else cftsql);
          cftsql = cftsql @ [CHR 0x0A];
          cftsql = cftsql @ quote_identifier colname @ '' ''
      in case translate_sqliteType typename of
           Inl e \<Rightarrow> Inl e
         | Inr pgtype \<Rightarrow>
             (let cftsql = cftsql @ pgtype @ '' '';
                  cftsql = (if import_notnull importOpts
                            then (if ti_notnull columns = 1
                                  then cftsql @ '' NOT NULL '' else cftsql)
                            else cftsql);
                  cftsql = (if import_default importOpts
                            then (case ti_dflt_value columns of
                                    None \<Rightarrow> cftsql
                                  | Some dflt \<Rightarrow> cftsql @ '' DEFAULT '' @ dflt @ '' '')
                            else cftsql)
              in Inr cftsql))"

text \<open>The \<^verbatim>\<open>while (sqlite3_step(columns) == SQLITE_ROW)\<close> loop with its counter.\<close>

fun step_columns ::
  "(string \<Rightarrow> string) \<Rightarrow> SqliteTableImportOptions \<Rightarrow> string \<Rightarrow> nat \<Rightarrow> table_info_row list
     \<Rightarrow> ereport + string" where
  "step_columns quote_identifier importOptions cftsql counter [] = Inr cftsql"
| "step_columns quote_identifier importOptions cftsql counter (row # columns) =
     (case add_columnDefinition quote_identifier cftsql counter importOptions row of
        Inl e \<Rightarrow> Inl e
      | Inr cftsql' \<Rightarrow>
          step_columns quote_identifier importOptions cftsql' (counter + 1) columns)"

text \<open>
  The result is \<open>Inr None\<close> for the \<^verbatim>\<open>NULL\<close> return, \<open>Inr (Some sql)\<close> for the
  statement, and \<open>Inl e\<close> when an error is raised: \<^verbatim>\<open>PG_CATCH\<close> frees the buffer
  and re-throws.
\<close>

definition get_foreignTableCreationSql ::
  "(string \<Rightarrow> string) \<Rightarrow> ImportForeignSchemaStmt \<Rightarrow> sqlite3 \<Rightarrow> string
     \<Rightarrow> SqliteTableImportOptions \<Rightarrow> ereport + string option" where
  "get_foreignTableCreationSql quote_identifier stmt db tablename importOptions =
     (if \<not> is_sqliteTableRequired stmt tablename then Inr None
      else
        let cftsql = ''CREATE FOREIGN TABLE '' @ local_schema stmt @ ''.'' @
                       quote_identifier tablename @ '' ('';
            columns_q = ''PRAGMA table_info('' @ tablename @ '')''
        in case prepare_sqliteQuery db columns_q of
             Inl e \<Rightarrow> Inl e
           | Inr columns \<Rightarrow>
               (case step_columns quote_identifier importOptions cftsql 0 columns of
                  Inl e \<Rightarrow> Inl e
                | Inr cftsql \<Rightarrow>
                    Inr (Some (cftsql @ [CHR 0x0A] @ '') SERVER '' @
                               quote_identifier (server_name stmt) @ [CHR 0x0A] @
                               ''OPTIONS (table '' @ [CHR 0x27] @
                               quote_identifier tablename @ [CHR 0x27] @ '')''))))"

section \<open>Properties\<close>

subsection \<open>Auxiliary facts\<close>

lemma strcmp_eq_0_iff: "strcmp a b = 0 \<longleftrightarrow> a = b"
  by (induction a b rule: strcmp.induct) auto

lemma strncmp_eq_0_iff: "strncmp a b n = 0 \<longleftrightarrow> take n a = take n b"
  by (induction a b n rule: strncmp.induct) auto

lemma strstr_iff_sublist: "strstr h n \<noteq> None \<longleftrightarrow> sublist n h"
  by (induction h) (auto simp: sublist_Cons_right)

lemma foreach_table_list_iff: "foreach_table_list tablename names \<longleftrightarrow> tablename \<in> set names"
  by (induction names) (auto simp: strcmp_eq_0_iff)

lemma get_affinity_sublist:
  "get_affinity t =
     (if sublist ''int'' t then ''Integer''
      else if sublist ''char'' t \<or> sublist ''clob'' t \<or> sublist ''text'' t then ''Text''
      else if sublist ''blob'' t then ''Blob''
      else if sublist ''real'' t \<or> sublist ''floa'' t \<or> sublist ''doub'' t then ''Real''
      else ''Numeric'')"
  unfolding get_affinity_def strstr_iff_sublist by (rule refl)

lemma asc_tolower_sublist: "sublist w d \<Longrightarrow> sublist (asc_tolower w) (asc_tolower d)"
  unfolding asc_tolower_def by (rule map_mono_sublist)

lemma translate_Integer:
  "get_affinity (asc_tolower d) = ''Integer'' \<Longrightarrow> translate_sqliteType d = Inr ''bigint''"
  by (simp add: translate_sqliteType_def Let_def strcmp_eq_0_iff)

lemma translate_Numeric:
  "get_affinity (asc_tolower d) = ''Numeric'' \<Longrightarrow>
   translate_sqliteType d =
     (if asc_tolower d = ''date''
      then Inl (ERROR ERRCODE_FDW_ERROR ''Could not handle type date from a sqlite db'')
      else Inr (asc_tolower d))"
  by (simp add: translate_sqliteType_def Let_def strcmp_eq_0_iff strncmp_eq_0_iff)

lemma translate_blob: "translate_sqliteType ''blob'' = Inr ''bytea''"
  by code_simp

lemma creation_absent_iff:
  "get_foreignTableCreationSql q stmt db tablename opts = Inr None \<longleftrightarrow>
     \<not> is_sqliteTableRequired stmt tablename"
  by (simp add: get_foreignTableCreationSql_def Let_def split: sum.splits)

lemma add_columnDefinition_Inl_iff:
  "add_columnDefinition q cftsql counter opts r = Inl e \<longleftrightarrow>
     translate_sqliteType (case ti_type r of None \<Rightarrow> ''blob'' | Some t \<Rightarrow> t) = Inl e"
  by (simp add: add_columnDefinition_def Let_def split: sum.splits)

text \<open>The loop stops at a column whose type the classifier rejects, with that error.\<close>

lemma step_columns_fails:
  assumes "r \<in> set rows" and "ti_type r = Some t" and "translate_sqliteType t = Inl e"
  shows "\<exists>r' t' e'. r' \<in> set rows \<and> ti_type r' = Some t' \<and> translate_sqliteType t' = Inl e' \<and>
           step_columns q opts cftsql counter rows = Inl e'"
  using assms
proof (induction rows arbitrary: cftsql counter)
  case Nil
  then show ?case by simp
next
  case (Cons a rows)
  show ?case
  proof (cases "add_columnDefinition q cftsql counter opts a")
    case (Inl e0)
    then have f: "translate_sqliteType (case ti_type a of None \<Rightarrow> ''blob'' | Some t \<Rightarrow> t) = Inl e0"
      by (simp add: add_columnDefinition_Inl_iff)
    then obtain t0 where "ti_type a = Some t0"
      using translate_blob by (cases "ti_type a") auto
    with f Inl show ?thesis by auto
  next
    case (Inr b)
    then have "r \<noteq> a"
      using Cons.prems(2,3) add_columnDefinition_Inl_iff [of q cftsql counter opts a e]
      by auto
    then have "r \<in> set rows" using Cons.prems(1) by simp
    from Cons.IH [OF this Cons.prems(2,3), of b "counter + 1"] Inr
    show ?thesis by auto
  qed
qed

text \<open>The clause one accepted column adds to the buffer.\<close>

lemma add_columnDefinition_Inr:
  assumes "translate_sqliteType (case ti_type r of None \<Rightarrow> ''blob'' | Some t \<Rightarrow> t) = Inr pgtype"
  shows "add_columnDefinition q cftsql counter opts r =
           Inr (cftsql @ (if counter > 0 then '','' else []) @ [CHR 0x0A] @
                q (ti_name r) @ '' '' @ pgtype @ '' '' @
                (if import_notnull opts \<and> ti_notnull r = 1 then '' NOT NULL '' else []) @
                (if import_default opts \<and> ti_dflt_value r \<noteq> None
                 then '' DEFAULT '' @ the (ti_dflt_value r) @ '' '' else []))"
  using assms by (auto simp: add_columnDefinition_def Let_def split: option.splits)

text \<open>When every row is accepted, the loop appends the rows' clauses in cursor order.\<close>

lemma step_columns_Inr:
  assumes "\<forall>r\<in>set rows.
             translate_sqliteType (case ti_type r of None \<Rightarrow> ''blob'' | Some t \<Rightarrow> t) = Inr (pg r)"
  shows "step_columns q opts cftsql counter rows =
           Inr (cftsql @
                concat (map (\<lambda>(i, r).
                          (if i > 0 then '','' else []) @ [CHR 0x0A] @
                          q (ti_name r) @ '' '' @ pg r @ '' '' @
                          (if import_notnull opts \<and> ti_notnull r = 1 then '' NOT NULL '' else []) @
                          (if import_default opts \<and> ti_dflt_value r \<noteq> None
                           then '' DEFAULT '' @ the (ti_dflt_value r) @ '' '' else []))
                        (enumerate counter rows)))"
  using assms
proof (induction rows arbitrary: cftsql counter)
  case Nil
  then show ?case by simp
next
  case (Cons a rows)
  have a: "translate_sqliteType (case ti_type a of None \<Rightarrow> ''blob'' | Some t \<Rightarrow> t) = Inr (pg a)"
    using Cons.prems by simp
  have rest: "\<forall>r\<in>set rows.
             translate_sqliteType (case ti_type r of None \<Rightarrow> ''blob'' | Some t \<Rightarrow> t) = Inr (pg r)"
    using Cons.prems by simp
  show ?case
    by (simp add: add_columnDefinition_Inr [OF a] Cons.IH [OF rest])
qed

text \<open>An error of the loop is the classifier's error on a row that declares a type.\<close>

lemma step_columns_Inl:
  assumes "step_columns q opts cftsql counter rows = Inl e"
  shows "\<exists>r\<in>set rows. \<exists>t. ti_type r = Some t \<and> translate_sqliteType t = Inl e"
  using assms
proof (induction rows arbitrary: cftsql counter)
  case Nil
  then show ?case by simp
next
  case (Cons a rows)
  show ?case
  proof (cases "add_columnDefinition q cftsql counter opts a")
    case (Inl e0)
    with Cons.prems have "e0 = e" by simp
    with Inl have f: "translate_sqliteType (case ti_type a of None \<Rightarrow> ''blob'' | Some t \<Rightarrow> t) = Inl e"
      by (simp add: add_columnDefinition_Inl_iff)
    then obtain t0 where "ti_type a = Some t0"
      using translate_blob by (cases "ti_type a") auto
    with f show ?thesis by auto
  next
    case (Inr b)
    with Cons.prems have "step_columns q opts b (counter + 1) rows = Inl e" by simp
    from Cons.IH [OF this] show ?thesis by auto
  qed
qed

subsection \<open>The classifier on Numeric affinity\<close>

text \<open>
  C1. The claim: a Numeric-affinity declaration that lowercases to \<open>timestamp\<close> is
  classified as \<open>timestamp\<close>, and one that lowercases to \<open>date\<close> as \<open>date\<close>.
  The code tests \<^verbatim>\<open>strcmp(type, "date")\<close> without comparing the result to zero, so
  the declaration \<open>date\<close>, whose affinity is Numeric, is the one Numeric declaration
  that is not returned: it reaches \<^verbatim>\<open>ereport\<close>. The theorem evaluates the code there.
\<close>

theorem translate_date_raises:
  "get_affinity (asc_tolower ''date'') = ''Numeric'' \<and>
   translate_sqliteType ''date'' =
     Inl (ERROR ERRCODE_FDW_ERROR ''Could not handle type date from a sqlite db'')"
  by code_simp

theorem translate_date_raises_witness:
  "translate_sqliteType ''date'' \<noteq> Inr ''date''"
  using translate_date_raises by simp

text \<open>
  C2. The claim: a Numeric-affinity declaration that is neither \<open>timestamp\<close> nor
  \<open>date\<close> and does not begin with \<open>bool\<close> is rejected with an error. The code
  returns the lowercased declaration instead; the theorem evaluates it at \<open>numeric\<close>.
\<close>

theorem translate_numeric_returned:
  "get_affinity (asc_tolower ''numeric'') = ''Numeric'' \<and>
   asc_tolower ''numeric'' \<noteq> ''timestamp'' \<and>
   asc_tolower ''numeric'' \<noteq> ''date'' \<and>
   \<not> prefix ''bool'' (asc_tolower ''numeric'') \<and>
   translate_sqliteType ''numeric'' = Inr ''numeric''"
  by code_simp

theorem translate_numeric_returned_witness:
  "\<forall>e. translate_sqliteType ''numeric'' \<noteq> Inl e"
  using translate_numeric_returned by simp

text \<open>
  C3. The claim: a Numeric-affinity declaration whose lowercased form begins with
  \<open>bool\<close> is classified as \<open>boolean\<close>, and \<open>boo\<close> is not. The code returns
  the declaration \<open>bool\<close> as the type \<open>bool\<close> and \<open>booly\<close> as \<open>booly\<close>:
  the prefix test is never reached for them.
\<close>

theorem translate_bool_returned:
  "get_affinity (asc_tolower ''bool'') = ''Numeric'' \<and>
   prefix ''bool'' (asc_tolower ''bool'') \<and>
   translate_sqliteType ''bool'' = Inr ''bool'' \<and>
   translate_sqliteType ''booly'' = Inr ''booly''"
  by code_simp

theorem translate_bool_returned_witness:
  "translate_sqliteType ''bool'' \<noteq> Inr ''boolean''"
  using translate_bool_returned by simp

text \<open>
  C10. For a declaration of Numeric affinity the classifier raises its error exactly
  when the lowercased declaration is \<open>date\<close>, and returns the lowercased declaration
  itself otherwise; so the type \<open>boolean\<close> comes out only for the declaration
  \<open>boolean\<close>, returned as it is, and never from the prefix test.
\<close>

theorem translate_Numeric_date_only:
  assumes "get_affinity (asc_tolower d) = ''Numeric''"
  shows "((\<exists>e. translate_sqliteType d = Inl e) \<longleftrightarrow> asc_tolower d = ''date'') \<and>
         (asc_tolower d = ''date'' \<longrightarrow>
            translate_sqliteType d =
              Inl (ERROR ERRCODE_FDW_ERROR ''Could not handle type date from a sqlite db'')) \<and>
         (asc_tolower d \<noteq> ''date'' \<longrightarrow> translate_sqliteType d = Inr (asc_tolower d)) \<and>
         (translate_sqliteType d = Inr ''boolean'' \<longrightarrow> asc_tolower d = ''boolean'')"
  using translate_Numeric [OF assms] by (auto split: if_splits)

theorem translate_Numeric_date_only_witness:
  "get_affinity (asc_tolower ''NUMERIC'') = ''Numeric'' \<and>
   translate_sqliteType ''NUMERIC'' = Inr ''numeric''"
proof -
  have h: "get_affinity (asc_tolower ''NUMERIC'') = ''Numeric''" by code_simp
  have n: "asc_tolower ''NUMERIC'' = ''numeric''" by code_simp
  from translate_Numeric_date_only [OF h] n h show ?thesis by simp
qed

subsection \<open>Integer affinity comes first\<close>

text \<open>
  C4. A declaration that contains \<open>int\<close> in any mix of upper and lower case, anywhere,
  is classified as \<open>bigint\<close>, whatever else it contains; and the affinity of a
  lowercased declaration is decided by the first rule that matches, in the order
  int, char/clob/text, blob, real/floa/doub, Numeric.
\<close>

theorem translate_int_anywhere:
  "(sublist w d \<and> asc_tolower w = ''int'' \<longrightarrow> translate_sqliteType d = Inr ''bigint'') \<and>
   get_affinity t =
     (if sublist ''int'' t then ''Integer''
      else if sublist ''char'' t \<or> sublist ''clob'' t \<or> sublist ''text'' t then ''Text''
      else if sublist ''blob'' t then ''Blob''
      else if sublist ''real'' t \<or> sublist ''floa'' t \<or> sublist ''doub'' t then ''Real''
      else ''Numeric'')"
proof (intro conjI impI)
  assume h: "sublist w d \<and> asc_tolower w = ''int''"
  then have "sublist ''int'' (asc_tolower d)"
    using asc_tolower_sublist [of w d] by simp
  then have "get_affinity (asc_tolower d) = ''Integer''"
    by (simp add: get_affinity_sublist)
  then show "translate_sqliteType d = Inr ''bigint''"
    by (rule translate_Integer)
next
  show "get_affinity t =
     (if sublist ''int'' t then ''Integer''
      else if sublist ''char'' t \<or> sublist ''clob'' t \<or> sublist ''text'' t then ''Text''
      else if sublist ''blob'' t then ''Blob''
      else if sublist ''real'' t \<or> sublist ''floa'' t \<or> sublist ''doub'' t then ''Real''
      else ''Numeric'')"
    by (rule get_affinity_sublist)
qed

theorem translate_int_anywhere_witness:
  "sublist ''Int'' ''Integer Text'' \<and> asc_tolower ''Int'' = ''int'' \<and>
   translate_sqliteType ''Integer Text'' = Inr ''bigint'' \<and>
   get_affinity ''integer text'' = ''Integer''"
proof -
  have s: "sublist ''Int'' ''Integer Text''" by code_simp
  have l: "asc_tolower ''Int'' = ''int''" by code_simp
  have i: "sublist ''int'' ''integer text''" by code_simp
  from translate_int_anywhere [of "''Int''" "''Integer Text''" "''integer text''"] s l i
  show ?thesis by simp
qed

subsection \<open>Scope\<close>

text \<open>
  C5. Under \<^verbatim>\<open>LIMIT TO\<close> a table is required iff its name is in the list, under
  \<^verbatim>\<open>EXCEPT\<close> iff it is not, and with no restriction always; the synthesizer returns
  \<^verbatim>\<open>NULL\<close>, which is not an error, exactly when the table is not required. So an
  empty \<^verbatim>\<open>LIMIT TO\<close> list leaves every table out and an empty \<^verbatim>\<open>EXCEPT\<close> list
  lets every table in.
\<close>

theorem table_absent_iff_out_of_scope:
  "is_sqliteTableRequired stmt tablename =
     (case list_type stmt of
        FDW_IMPORT_SCHEMA_LIMIT_TO \<Rightarrow> tablename \<in> set (table_list stmt)
      | FDW_IMPORT_SCHEMA_EXCEPT \<Rightarrow> tablename \<notin> set (table_list stmt)
      | FDW_IMPORT_SCHEMA_ALL \<Rightarrow> True) \<and>
   (get_foreignTableCreationSql q stmt db tablename opts = Inr None \<longleftrightarrow>
      \<not> is_sqliteTableRequired stmt tablename) \<and>
   (list_type stmt = FDW_IMPORT_SCHEMA_LIMIT_TO \<and> table_list stmt = [] \<longrightarrow>
      get_foreignTableCreationSql q stmt db tablename opts = Inr None) \<and>
   (list_type stmt = FDW_IMPORT_SCHEMA_EXCEPT \<and> table_list stmt = [] \<longrightarrow>
      get_foreignTableCreationSql q stmt db tablename opts \<noteq> Inr None)"
proof -
  have req: "is_sqliteTableRequired stmt tablename =
     (case list_type stmt of
        FDW_IMPORT_SCHEMA_LIMIT_TO \<Rightarrow> tablename \<in> set (table_list stmt)
      | FDW_IMPORT_SCHEMA_EXCEPT \<Rightarrow> tablename \<notin> set (table_list stmt)
      | FDW_IMPORT_SCHEMA_ALL \<Rightarrow> True)"
    by (simp add: is_sqliteTableRequired_def foreach_table_list_iff
             split: ImportForeignSchemaType.splits)
  show ?thesis
    unfolding creation_absent_iff using req by simp
qed

theorem table_absent_iff_out_of_scope_witness:
  "get_foreignTableCreationSql (\<lambda>s. s)
     \<lparr>server_name = ''srv'', remote_schema = ''main'', local_schema = ''s'',
      list_type = FDW_IMPORT_SCHEMA_LIMIT_TO, table_list = []\<rparr>
     (\<lambda>query. Inr []) ''t1'' \<lparr>import_notnull = True, import_default = True\<rparr> = Inr None"
  using table_absent_iff_out_of_scope
    [of "\<lparr>server_name = ''srv'', remote_schema = ''main'', local_schema = ''s'',
          list_type = FDW_IMPORT_SCHEMA_LIMIT_TO, table_list = []\<rparr>" "''t1''"
        "\<lambda>s. s" "\<lambda>query. Inr []" "\<lparr>import_notnull = True, import_default = True\<rparr>"]
  by simp

subsection \<open>Column clauses\<close>

text \<open>
  C6. For a table in scope whose columns the classifier all accepts, the synthesizer
  returns the header, one clause for each row of the cursor in cursor order, and the
  footer. Each clause is the separator, the quoted name and the target type, followed
  by \<open>NOT NULL\<close> exactly when \<open>import_notnull\<close> of the options passed to the
  synthesizer is on and the row's not-null column is 1, and by \<open>DEFAULT\<close> and the
  default text exactly when \<open>import_default\<close> is on and the default is not null. The
  default text is appended as the row gives it. Here \<open>pg r\<close> is the classifier's
  result for row \<open>r\<close>.
\<close>

theorem creation_sql_column_clauses:
  assumes "is_sqliteTableRequired stmt tablename"
    and "db (''PRAGMA table_info('' @ tablename @ '')'') = Inr rows"
    and "\<forall>r\<in>set rows.
           translate_sqliteType (case ti_type r of None \<Rightarrow> ''blob'' | Some t \<Rightarrow> t) = Inr (pg r)"
  shows "get_foreignTableCreationSql q stmt db tablename opts =
           Inr (Some (''CREATE FOREIGN TABLE '' @ local_schema stmt @ ''.'' @ q tablename @ '' ('' @
                concat (map (\<lambda>(i, r).
                          (if i > 0 then '','' else []) @ [CHR 0x0A] @
                          q (ti_name r) @ '' '' @ pg r @ '' '' @
                          (if import_notnull opts \<and> ti_notnull r = 1 then '' NOT NULL '' else []) @
                          (if import_default opts \<and> ti_dflt_value r \<noteq> None
                           then '' DEFAULT '' @ the (ti_dflt_value r) @ '' '' else []))
                        (enumerate 0 rows)) @
                [CHR 0x0A] @ '') SERVER '' @ q (server_name stmt) @ [CHR 0x0A] @
                ''OPTIONS (table '' @ [CHR 0x27] @ q tablename @ [CHR 0x27] @ '')''))"
  using assms(1,2)
  by (simp add: get_foreignTableCreationSql_def prepare_sqliteQuery_def Let_def
        step_columns_Inr [OF assms(3)])

theorem creation_sql_column_clauses_witness:
  "get_foreignTableCreationSql (\<lambda>s. s)
     \<lparr>server_name = ''srv'', remote_schema = ''main'', local_schema = ''s'',
      list_type = FDW_IMPORT_SCHEMA_ALL, table_list = []\<rparr>
     (\<lambda>query. Inr [\<lparr>ti_name = ''id'', ti_type = Some ''INTEGER'', ti_notnull = 1,
                     ti_dflt_value = None\<rparr>,
                    \<lparr>ti_name = ''name'', ti_type = Some ''VARCHAR(10)'', ti_notnull = 0,
                     ti_dflt_value = Some ''0''\<rparr>])
     ''t1'' \<lparr>import_notnull = False, import_default = True\<rparr>
   = Inr (Some (''CREATE FOREIGN TABLE s.t1 ('' @ [CHR 0x0A] @
                ''id bigint ,'' @ [CHR 0x0A] @
                ''name text  DEFAULT 0 '' @ [CHR 0x0A] @
                '') SERVER srv'' @ [CHR 0x0A] @
                ''OPTIONS (table '' @ [CHR 0x27] @ ''t1'' @ [CHR 0x27] @ '')''))"
proof -
  let ?stmt = "\<lparr>server_name = ''srv'', remote_schema = ''main'', local_schema = ''s'',
      list_type = FDW_IMPORT_SCHEMA_ALL, table_list = []\<rparr>"
  let ?r1 = "\<lparr>ti_name = ''id'', ti_type = Some ''INTEGER'', ti_notnull = 1,
               ti_dflt_value = None\<rparr>"
  let ?r2 = "\<lparr>ti_name = ''name'', ti_type = Some ''VARCHAR(10)'', ti_notnull = 0,
               ti_dflt_value = Some ''0''\<rparr>"
  let ?db = "\<lambda>query::string. (Inr [?r1, ?r2] :: string + table_info_row list)"
  let ?pg = "\<lambda>r. if ti_name r = ''id'' then ''bigint'' else ''text''"
  have a: "is_sqliteTableRequired ?stmt ''t1''" by (simp add: is_sqliteTableRequired_def)
  have b: "?db (''PRAGMA table_info('' @ ''t1'' @ '')'') = Inr [?r1, ?r2]" by simp
  have i: "translate_sqliteType ''INTEGER'' = Inr ''bigint''" by code_simp
  have v: "translate_sqliteType ''VARCHAR(10)'' = Inr ''text''" by code_simp
  have c: "\<forall>r\<in>set [?r1, ?r2].
           translate_sqliteType (case ti_type r of None \<Rightarrow> ''blob'' | Some t \<Rightarrow> t) = Inr (?pg r)"
    using i v by simp
  from creation_sql_column_clauses
         [OF a b c, of "\<lambda>s. s" "\<lparr>import_notnull = False, import_default = True\<rparr>"]
  show ?thesis by simp
qed

text \<open>
  C7. A row whose declared type is null is classified as if it said \<open>blob\<close>. For a
  table in scope, when the classifier accepts the types that the other rows declare
  (\<open>pg r\<close> is its result for such a row), the synthesizer returns the statement, and
  in it the clause of every row with a null type carries the type \<open>bytea\<close>. And the
  synthesizer never fails on such a row: an error it raises during the loop is the
  classifier's error on a row that declares a type.
\<close>

theorem creation_sql_null_type_bytea:
  assumes "is_sqliteTableRequired stmt tablename"
    and "db (''PRAGMA table_info('' @ tablename @ '')'') = Inr rows"
  shows "((\<forall>r\<in>set rows. \<forall>t. ti_type r = Some t \<longrightarrow> translate_sqliteType t = Inr (pg r)) \<longrightarrow>
          get_foreignTableCreationSql q stmt db tablename opts =
           Inr (Some (''CREATE FOREIGN TABLE '' @ local_schema stmt @ ''.'' @ q tablename @ '' ('' @
                concat (map (\<lambda>(i, r).
                          (if i > 0 then '','' else []) @ [CHR 0x0A] @
                          q (ti_name r) @ '' '' @
                          (case ti_type r of None \<Rightarrow> ''bytea'' | Some t \<Rightarrow> pg r) @ '' '' @
                          (if import_notnull opts \<and> ti_notnull r = 1 then '' NOT NULL '' else []) @
                          (if import_default opts \<and> ti_dflt_value r \<noteq> None
                           then '' DEFAULT '' @ the (ti_dflt_value r) @ '' '' else []))
                        (enumerate 0 rows)) @
                [CHR 0x0A] @ '') SERVER '' @ q (server_name stmt) @ [CHR 0x0A] @
                ''OPTIONS (table '' @ [CHR 0x27] @ q tablename @ [CHR 0x27] @ '')''))) \<and>
         (\<forall>e. get_foreignTableCreationSql q stmt db tablename opts = Inl e \<longrightarrow>
              (\<exists>r\<in>set rows. \<exists>t. ti_type r = Some t \<and> translate_sqliteType t = Inl e))"
proof (intro conjI impI allI)
  assume h: "\<forall>r\<in>set rows. \<forall>t. ti_type r = Some t \<longrightarrow> translate_sqliteType t = Inr (pg r)"
  have c: "\<forall>r\<in>set rows.
           translate_sqliteType (case ti_type r of None \<Rightarrow> ''blob'' | Some t \<Rightarrow> t) =
             Inr (case ti_type r of None \<Rightarrow> ''bytea'' | Some t \<Rightarrow> pg r)"
    using h translate_blob by (auto split: option.splits)
  show "get_foreignTableCreationSql q stmt db tablename opts =
           Inr (Some (''CREATE FOREIGN TABLE '' @ local_schema stmt @ ''.'' @ q tablename @ '' ('' @
                concat (map (\<lambda>(i, r).
                          (if i > 0 then '','' else []) @ [CHR 0x0A] @
                          q (ti_name r) @ '' '' @
                          (case ti_type r of None \<Rightarrow> ''bytea'' | Some t \<Rightarrow> pg r) @ '' '' @
                          (if import_notnull opts \<and> ti_notnull r = 1 then '' NOT NULL '' else []) @
                          (if import_default opts \<and> ti_dflt_value r \<noteq> None
                           then '' DEFAULT '' @ the (ti_dflt_value r) @ '' '' else []))
                        (enumerate 0 rows)) @
                [CHR 0x0A] @ '') SERVER '' @ q (server_name stmt) @ [CHR 0x0A] @
                ''OPTIONS (table '' @ [CHR 0x27] @ q tablename @ [CHR 0x27] @ '')''))"
    using assms(1,2)
    by (simp add: get_foreignTableCreationSql_def prepare_sqliteQuery_def Let_def
          step_columns_Inr [OF c])
next
  fix e
  assume f: "get_foreignTableCreationSql q stmt db tablename opts = Inl e"
  then have "step_columns q opts
       (''CREATE FOREIGN TABLE '' @ local_schema stmt @ ''.'' @ q tablename @ '' ('') 0 rows
     = Inl e"
    using assms(1,2)
    by (simp add: get_foreignTableCreationSql_def prepare_sqliteQuery_def Let_def
             split: sum.splits)
  then show "\<exists>r\<in>set rows. \<exists>t. ti_type r = Some t \<and> translate_sqliteType t = Inl e"
    by (rule step_columns_Inl)
qed

theorem creation_sql_null_type_bytea_witness:
  "get_foreignTableCreationSql (\<lambda>s. s)
     \<lparr>server_name = ''srv'', remote_schema = ''main'', local_schema = ''s'',
      list_type = FDW_IMPORT_SCHEMA_ALL, table_list = []\<rparr>
     (\<lambda>query. Inr [\<lparr>ti_name = ''id'', ti_type = Some ''INTEGER'', ti_notnull = 1,
                     ti_dflt_value = None\<rparr>,
                    \<lparr>ti_name = ''payload'', ti_type = None, ti_notnull = 1,
                     ti_dflt_value = None\<rparr>])
     ''t1'' \<lparr>import_notnull = True, import_default = False\<rparr>
   = Inr (Some (''CREATE FOREIGN TABLE s.t1 ('' @ [CHR 0x0A] @
                ''id bigint  NOT NULL ,'' @ [CHR 0x0A] @
                ''payload bytea  NOT NULL '' @ [CHR 0x0A] @
                '') SERVER srv'' @ [CHR 0x0A] @
                ''OPTIONS (table '' @ [CHR 0x27] @ ''t1'' @ [CHR 0x27] @ '')''))"
proof -
  let ?stmt = "\<lparr>server_name = ''srv'', remote_schema = ''main'', local_schema = ''s'',
      list_type = FDW_IMPORT_SCHEMA_ALL, table_list = []\<rparr>"
  let ?r1 = "\<lparr>ti_name = ''id'', ti_type = Some ''INTEGER'', ti_notnull = 1,
               ti_dflt_value = None\<rparr>"
  let ?r2 = "\<lparr>ti_name = ''payload'', ti_type = None, ti_notnull = 1,
               ti_dflt_value = None\<rparr>"
  let ?db = "\<lambda>query::string. (Inr [?r1, ?r2] :: string + table_info_row list)"
  have a: "is_sqliteTableRequired ?stmt ''t1''" by (simp add: is_sqliteTableRequired_def)
  have b: "?db (''PRAGMA table_info('' @ ''t1'' @ '')'') = Inr [?r1, ?r2]" by simp
  have i: "translate_sqliteType ''INTEGER'' = Inr ''bigint''" by code_simp
  from creation_sql_null_type_bytea
         [OF a b, of "\<lambda>r. ''bigint''" "\<lambda>s. s"
            "\<lparr>import_notnull = True, import_default = False\<rparr>"]
  show ?thesis using i by simp
qed

subsection \<open>Identifier quoting\<close>

text \<open>
  C8. The claim: the schema name, the table name, the server name and every column name
  go through \<^verbatim>\<open>quote_identifier\<close>. The table, server and column names do; the schema
  name \<^verbatim>\<open>stmt->local_schema\<close> is formatted into the statement as it is. The theorem
  runs the synthesizer with a quoting function that wraps its argument in angle
  brackets: the schema name \<open>my schema\<close> is the one identifier without them.
\<close>

theorem schema_name_not_quoted:
  "get_foreignTableCreationSql (\<lambda>s. ''<'' @ s @ ''>'')
     \<lparr>server_name = ''srv'', remote_schema = ''main'', local_schema = ''my schema'',
      list_type = FDW_IMPORT_SCHEMA_ALL, table_list = []\<rparr>
     (\<lambda>query. Inr [\<lparr>ti_name = ''id'', ti_type = Some ''INTEGER'', ti_notnull = 1,
                     ti_dflt_value = None\<rparr>])
     ''t1'' \<lparr>import_notnull = False, import_default = False\<rparr>
   = Inr (Some (''CREATE FOREIGN TABLE my schema.<t1> ('' @ [CHR 0x0A] @
                ''<id> bigint '' @ [CHR 0x0A] @
                '') SERVER <srv>'' @ [CHR 0x0A] @
                ''OPTIONS (table '' @ [CHR 0x27] @ ''<t1>'' @ [CHR 0x27] @ '')''))"
  by code_simp

theorem schema_name_not_quoted_witness:
  "\<exists>sql. get_foreignTableCreationSql (\<lambda>s. ''<'' @ s @ ''>'')
     \<lparr>server_name = ''srv'', remote_schema = ''main'', local_schema = ''my schema'',
      list_type = FDW_IMPORT_SCHEMA_ALL, table_list = []\<rparr>
     (\<lambda>query. Inr [\<lparr>ti_name = ''id'', ti_type = Some ''INTEGER'', ti_notnull = 1,
                     ti_dflt_value = None\<rparr>])
     ''t1'' \<lparr>import_notnull = False, import_default = False\<rparr> = Inr (Some sql) \<and>
     prefix ''CREATE FOREIGN TABLE my schema.'' sql \<and>
     \<not> prefix ''CREATE FOREIGN TABLE <my schema>.'' sql"
  using schema_name_not_quoted by simp

subsection \<open>All or nothing\<close>

text \<open>
  C9. If the table is in scope, the query is prepared, and the classifier rejects the
  declared type of some column, then the synthesizer returns no statement at all: it
  raises the classifier's error for one of the rejected columns.
\<close>

theorem unsupported_type_aborts_table:
  assumes "is_sqliteTableRequired stmt tablename"
    and "db (''PRAGMA table_info('' @ tablename @ '')'') = Inr rows"
    and "r \<in> set rows" and "ti_type r = Some t" and "translate_sqliteType t = Inl e"
  shows "\<exists>r' t' e'. r' \<in> set rows \<and> ti_type r' = Some t' \<and> translate_sqliteType t' = Inl e' \<and>
           get_foreignTableCreationSql q stmt db tablename opts = Inl e'"
proof -
  obtain r' t' e' where *: "r' \<in> set rows" "ti_type r' = Some t'"
    "translate_sqliteType t' = Inl e'"
    "step_columns q opts
       (''CREATE FOREIGN TABLE '' @ local_schema stmt @ ''.'' @ q tablename @ '' ('') 0 rows
     = Inl e'"
    using step_columns_fails [OF assms(3-5)] by blast
  have "get_foreignTableCreationSql q stmt db tablename opts = Inl e'"
    using assms(1,2) *(4)
    by (simp add: get_foreignTableCreationSql_def prepare_sqliteQuery_def Let_def)
  with * show ?thesis by blast
qed

theorem unsupported_type_aborts_table_witness:
  "get_foreignTableCreationSql (\<lambda>s. s)
     \<lparr>server_name = ''srv'', remote_schema = ''main'', local_schema = ''s'',
      list_type = FDW_IMPORT_SCHEMA_ALL, table_list = []\<rparr>
     (\<lambda>query. Inr [\<lparr>ti_name = ''id'', ti_type = Some ''INTEGER'', ti_notnull = 1,
                     ti_dflt_value = None\<rparr>,
                    \<lparr>ti_name = ''born'', ti_type = Some ''DATE'', ti_notnull = 0,
                     ti_dflt_value = None\<rparr>])
     ''t1'' \<lparr>import_notnull = True, import_default = True\<rparr>
   = Inl (ERROR ERRCODE_FDW_ERROR ''Could not handle type date from a sqlite db'')"
proof -
  let ?stmt = "\<lparr>server_name = ''srv'', remote_schema = ''main'', local_schema = ''s'',
      list_type = FDW_IMPORT_SCHEMA_ALL, table_list = []\<rparr>"
  let ?r1 = "\<lparr>ti_name = ''id'', ti_type = Some ''INTEGER'', ti_notnull = 1,
               ti_dflt_value = None\<rparr>"
  let ?r2 = "\<lparr>ti_name = ''born'', ti_type = Some ''DATE'', ti_notnull = 0,
               ti_dflt_value = None\<rparr>"
  let ?db = "\<lambda>query::string. (Inr [?r1, ?r2] :: string + table_info_row list)"
  have a: "is_sqliteTableRequired ?stmt ''t1''" by (simp add: is_sqliteTableRequired_def)
  have b: "?db (''PRAGMA table_info('' @ ''t1'' @ '')'') = Inr [?r1, ?r2]" by simp
  have c: "?r2 \<in> set [?r1, ?r2]" by simp
  have d: "ti_type ?r2 = Some ''DATE''" by simp
  have e: "translate_sqliteType ''DATE'' =
             Inl (ERROR ERRCODE_FDW_ERROR ''Could not handle type date from a sqlite db'')"
    by code_simp
  have i: "translate_sqliteType ''INTEGER'' = Inr ''bigint''" by code_simp
  from unsupported_type_aborts_table
         [OF a b c d e, of "\<lambda>s. s" "\<lparr>import_notnull = True, import_default = True\<rparr>"]
  show ?thesis using e i by auto
qed

end
